theory Spec2Isabelle
  imports Main "HOL-Library.AList" "HOL-Library.Sublist"
begin

section \<open>Values exchanged with the remote service\<close>

text \<open>
  The bodies that \<^verbatim>\<open>response.json()\<close> hands to the code are JSON values. A Python
  \<^verbatim>\<open>dict\<close> decoded from JSON is kept as an association list with string keys;
  \<^verbatim>\<open>d.get(k, default)\<close> and \<^verbatim>\<open>d[k] = v\<close> are \<open>dict_get\<close> and \<open>AList.update\<close>
  (a decoded dict has each key once; an assignment replaces the value in place or appends
  the new key). Numbers are integers here (no claim reads a fractional number).
\<close>

datatype json =
    JNull
  | JBool bool
  | JNum int
  | JStr string
  | JArr "json list"
  | JObj "(string \<times> json) list"

definition dict_get :: "(string \<times> json) list \<Rightarrow> string \<Rightarrow> json \<Rightarrow> json" where
  "dict_get kv k dflt = (case map_of kv k of None \<Rightarrow> dflt | Some v \<Rightarrow> v)"

text \<open>Python truthiness, as tested by \<^verbatim>\<open>if not task_id\<close>.\<close>

fun truthy :: "json \<Rightarrow> bool" where
  "truthy JNull = False"
| "truthy (JBool b) = b"
| "truthy (JNum n) = (n \<noteq> 0)"
| "truthy (JStr s) = (s \<noteq> [])"
| "truthy (JArr xs) = (xs \<noteq> [])"
| "truthy (JObj kv) = (kv \<noteq> [])"

section \<open>Exceptions\<close>

text \<open>
  Every \<^verbatim>\<open>RuntimeError\<close> the module raises is built from one of four f-strings; the
  message is kept structured so that the numbers it reports can be read back.
\<close>

datatype runtime_msg =
    Timeout_after int nat   \<comment> \<open>\<^verbatim>\<open>Timeout after {max_wait}s and {attempts} polling attempts\<close>\<close>
  | Task_failed json        \<comment> \<open>\<^verbatim>\<open>Task failed: {json.dumps(result, indent=2)}\<close>\<close>
  | No_task_ID              \<comment> \<open>\<^verbatim>\<open>No task ID in response\<close>\<close>
  | Runway_API_error string \<comment> \<open>\<^verbatim>\<open>Runway API error: {str(e)}\<close>\<close>

text \<open>
  Instances of Python's \<^verbatim>\<open>Exception\<close>. \<open>Foreign\<close> is an exception raised by a library
  (requests, PIL, the file system): whether it is a \<^verbatim>\<open>requests.exceptions.RequestException\<close>,
  its \<^verbatim>\<open>response\<close> attribute (\<open>None\<close>: no such attribute; \<open>Some None\<close>: the attribute is
  Python's \<^verbatim>\<open>None\<close>; \<open>Some (Some t)\<close>: a response object whose \<^verbatim>\<open>.text\<close> is \<open>t\<close>), and
  \<^verbatim>\<open>str(e)\<close>.
\<close>

datatype exn =
    RuntimeError runtime_msg
  | AttributeError
  | TypeError
  | KeyError
  | Foreign bool "string option option" string

fun response_attr :: "exn \<Rightarrow> string option option" where
  "response_attr (Foreign _ r _) = r"
| "response_attr _ = None"

fun is_request_exception :: "exn \<Rightarrow> bool" where
  "is_request_exception (Foreign b _ _) = b"
| "is_request_exception _ = False"

fun exn_str :: "exn \<Rightarrow> string" where
  "exn_str (Foreign _ _ s) = s"
| "exn_str _ = []"

section \<open>The world: clock, network, files\<close>

datatype endpoint =
    Image_to_video   \<comment> \<open>\<^verbatim>\<open>https://api.dev.runwayml.com/v1/image_to_video\<close>\<close>
  | Tasks json       \<comment> \<open>\<^verbatim>\<open>https://api.dev.runwayml.com/v1/tasks/{task_id}\<close>\<close>
  | Location string  \<comment> \<open>a caller-supplied URL\<close>

datatype request =
    Get endpoint "(string \<times> string) list"
  | Post endpoint "(string \<times> string) list" json

record http_response =
  status_code :: nat
  body :: string
  json_body :: "exn + json"   \<comment> \<open>what \<^verbatim>\<open>response.json()\<close> returns or raises\<close>

text \<open>
  The clock counts milliseconds. \<open>sent\<close> lists the HTTP requests issued so far, oldest
  first; \<open>files\<close> the files written.
\<close>

record world =
  clock :: int
  sent :: "request list"
  files :: "(string \<times> string) list"

text \<open>
  The network answers a request, given all requests issued so far (the last one being the
  current request), with the time the call blocks (in milliseconds) and either the exception
  that \<^verbatim>\<open>requests.get\<close>/\<^verbatim>\<open>requests.post\<close> raises or the response. No call in the module
  passes a \<^verbatim>\<open>timeout\<close>, so the blocking time is whatever the network takes.
\<close>

type_synonym network = "request list \<Rightarrow> nat \<times> (exn + http_response)"

definition http :: "network \<Rightarrow> request \<Rightarrow> world \<Rightarrow> (exn + http_response) \<times> world" where
  "http net req w =
     (let hist = sent w @ [req]
      in (snd (net hist), w\<lparr>clock := clock w + int (fst (net hist)), sent := hist\<rparr>))"

definition sleep :: "int \<Rightarrow> world \<Rightarrow> world" where
  "sleep secs w = w\<lparr>clock := clock w + 1000 * secs\<rparr>"

text \<open>\<^verbatim>\<open>response.ok\<close> and \<^verbatim>\<open>response.raise_for_status()\<close> of the requests library.\<close>

definition ok :: "http_response \<Rightarrow> bool" where
  "ok r = (\<not> (400 \<le> status_code r \<and> status_code r < 600))"

definition raise_for_status :: "http_response \<Rightarrow> exn + unit" where
  "raise_for_status r =
     (if ok r then Inr () else Inl (Foreign True (Some (Some (body r))) ''HTTPError''))"

section \<open>RunwayVideoGenerator.poll_status\<close>

definition auth_headers :: "string \<Rightarrow> (string \<times> string) list" where
  "auth_headers api_key =
     [(''Authorization'', ''Bearer '' @ api_key), (''X-Runway-Version'', ''2024-11-06'')]"

text \<open>The request of lines 61 to 64.\<close>

definition status_request :: "json \<Rightarrow> string \<Rightarrow> request" where
  "status_request task_id api_key = Get (Tasks task_id) (auth_headers api_key)"

text \<open>\<^verbatim>\<open>len(x)\<close> and \<^verbatim>\<open>x[0]\<close> on a decoded JSON value.\<close>

fun py_len :: "json \<Rightarrow> exn + nat" where
  "py_len (JArr xs) = Inr (length xs)"
| "py_len (JStr s) = Inr (length s)"
| "py_len (JObj kv) = Inr (length kv)"
| "py_len _ = Inl TypeError"

fun py_item0 :: "json \<Rightarrow> exn + json" where
  "py_item0 (JArr (x # xs)) = Inr x"
| "py_item0 (JStr (c # cs)) = Inr (JStr [c])"
| "py_item0 (JObj kv) = Inl KeyError"
| "py_item0 _ = Inl TypeError"

text \<open>
  Lines 69 to 77: the inspection of a decoded status body. \<open>Inr (Some r)\<close> is
  \<^verbatim>\<open>return result\<close>, \<open>Inr None\<close> falls through to the \<^verbatim>\<open>time.sleep(10)\<close> of line 79,
  \<open>Inl e\<close> is an exception raised inside the \<^verbatim>\<open>try\<close>.
\<close>

definition check_status :: "json \<Rightarrow> exn + json option" where
  "check_status result =
     (case result of
        JObj kv \<Rightarrow>
          (let status = dict_get kv ''status'' (JStr ''UNKNOWN'') in
           if status = JStr ''SUCCEEDED'' then
             (case map_of kv ''output'' of
                None \<Rightarrow> Inr None
              | Some out \<Rightarrow>
                  (case py_len out of
                     Inl e \<Rightarrow> Inl e
                   | Inr n \<Rightarrow>
                       if n > 0 then
                         (case py_item0 out of
                            Inl e \<Rightarrow> Inl e
                          | Inr v \<Rightarrow> Inr (Some (JObj (AList.update ''video_url'' v kv))))
                       else Inr None))
           else if status \<in> set [JStr ''FAILED'', JStr ''CANCELED''] then
             Inl (RuntimeError (Task_failed result))
           else Inr None)
      | _ \<Rightarrow> Inl AttributeError)"

text \<open>Lines 61 to 77: one status request and its inspection (the body of the \<^verbatim>\<open>try\<close>).\<close>

definition poll_attempt ::
  "network \<Rightarrow> json \<Rightarrow> string \<Rightarrow> world \<Rightarrow> (exn + json option) \<times> world" where
  "poll_attempt net task_id api_key w =
     (let (out, w1) = http net (status_request task_id api_key) w
      in (case out of
            Inl e \<Rightarrow> Inl e
          | Inr response \<Rightarrow>
              (case raise_for_status response of
                 Inl e \<Rightarrow> Inl e
               | Inr _ \<Rightarrow>
                   (case json_body response of
                      Inl e \<Rightarrow> Inl e
                    | Inr result \<Rightarrow> check_status result)),
          w1))"

lemma poll_attempt_clock:
  "(r, w1) = poll_attempt net task_id api_key w \<Longrightarrow> clock w \<le> clock w1"
  by (simp add: poll_attempt_def http_def Let_def split: prod.splits)

text \<open>
  The \<^verbatim>\<open>while\<close> loop of lines 57 to 86. The handler of line 80 catches every
  \<^verbatim>\<open>Exception\<close> raised in the body, the \<^verbatim>\<open>RuntimeError\<close> of line 77 included; line 83
  reads \<^verbatim>\<open>e.response.text\<close> whenever \<^verbatim>\<open>e\<close> has a \<^verbatim>\<open>response\<close> attribute, which raises
  \<^verbatim>\<open>AttributeError\<close> out of the handler when that attribute is \<^verbatim>\<open>None\<close>.
\<close>

function poll_loop ::
  "network \<Rightarrow> json \<Rightarrow> string \<Rightarrow> int \<Rightarrow> int \<Rightarrow> nat \<Rightarrow> world \<Rightarrow> (exn + json) \<times> world" where
  "poll_loop net task_id api_key max_wait end_time attempts w =
     (if clock w < end_time then
        (case poll_attempt net task_id api_key w of
           (Inr (Some result), w1) \<Rightarrow> (Inr result, w1)
         | (Inr None, w1) \<Rightarrow>
             poll_loop net task_id api_key max_wait end_time (Suc attempts) (sleep 10 w1)
         | (Inl e, w1) \<Rightarrow>
             (case response_attr e of
                Some None \<Rightarrow> (Inl AttributeError, w1)
              | _ \<Rightarrow>
                  poll_loop net task_id api_key max_wait end_time (Suc attempts) (sleep 10 w1)))
      else (Inl (RuntimeError (Timeout_after max_wait attempts)), w))"
  by pat_completeness auto
termination
  by (relation "measure (\<lambda>(net, task_id, api_key, max_wait, end_time, attempts, w).
                            nat (end_time - clock w))")
     (auto simp: sleep_def dest!: poll_attempt_clock)

definition poll_status ::
  "network \<Rightarrow> json \<Rightarrow> string \<Rightarrow> int \<Rightarrow> world \<Rightarrow> (exn + json) \<times> world" where
  "poll_status net task_id api_key max_wait w =
     (let start_time = clock w;
          end_time = start_time + 1000 * max_wait
      in poll_loop net task_id api_key max_wait end_time 0 w)"


section \<open>RunwayVideoGenerator.encode_image\<close>

text \<open>
  \<^verbatim>\<open>base64.b64encode\<close> on a list of bytes (RFC 4648, standard alphabet, \<open>=\<close> padding).
\<close>

definition b64_alphabet :: string where
  "b64_alphabet = ''ABCDEFGHIJKLMNOPQRSTUVWXYZabcdefghijklmnopqrstuvwxyz0123456789+/''"

definition b64_char :: "nat \<Rightarrow> char" where
  "b64_char n = b64_alphabet ! (n mod 64)"

fun b64encode :: "nat list \<Rightarrow> string" where
  "b64encode [] = []"
| "b64encode [a] =
     [b64_char (a div 4), b64_char ((a mod 4) * 16), CHR ''='', CHR ''='']"
| "b64encode [a, b] =
     [b64_char (a div 4), b64_char ((a mod 4) * 16 + b div 16),
      b64_char ((b mod 16) * 4), CHR ''='']"
| "b64encode (a # b # c # rest) =
     b64_char (a div 4) # b64_char ((a mod 4) * 16 + b div 16) #
     b64_char ((b mod 16) * 4 + c div 64) # b64_char (c mod 64) # b64encode rest"

text \<open>
  The inverse direction (RFC 4648, section 4) on well-formed text: four characters give
  three bytes, and padding ends the text.
\<close>

fun index_of :: "'a \<Rightarrow> 'a list \<Rightarrow> nat" where
  "index_of x [] = 0"
| "index_of x (y # ys) = (if x = y then 0 else Suc (index_of x ys))"

definition b64_index :: "char \<Rightarrow> nat" where
  "b64_index c = index_of c b64_alphabet"

fun b64decode :: "string \<Rightarrow> nat list" where
  "b64decode (c1 # c2 # c3 # c4 # rest) =
     (let s1 = b64_index c1; s2 = b64_index c2 in
      if c3 = CHR ''='' then [s1 * 4 + s2 div 16]
      else
        (let s3 = b64_index c3 in
         if c4 = CHR ''='' then [s1 * 4 + s2 div 16, (s2 mod 16) * 16 + s3 div 4]
         else
           (let s4 = b64_index c4 in
            (s1 * 4 + s2 div 16) # ((s2 mod 16) * 16 + s3 div 4) # ((s3 mod 4) * 64 + s4) #
            b64decode rest)))"
| "b64decode _ = []"

text \<open>
  The imaging libraries (torch, numpy, PIL) are not part of the module; what the module asks
  of them is taken as a parameter. \<open>'t\<close> is a tensor, \<open>'p\<close> a PIL image.
\<close>

record ('t, 'p) imaging =
  tensor_to_pil :: "'t \<Rightarrow> exn + 'p"
    \<comment> \<open>lines 37 to 39: \<^verbatim>\<open>Image.fromarray((image.squeeze(0) * 255).byte().cpu().numpy())\<close>\<close>
  resize_lanczos :: "'p \<Rightarrow> nat \<times> nat \<Rightarrow> exn + 'p"
    \<comment> \<open>\<^verbatim>\<open>image.resize(size, Image.Resampling.LANCZOS)\<close>\<close>
  save_jpeg :: "'p \<Rightarrow> nat \<Rightarrow> exn + nat list"
    \<comment> \<open>\<^verbatim>\<open>image.save(buffered, format="JPEG", quality=q)\<close>, then \<^verbatim>\<open>buffered.getvalue()\<close>\<close>

datatype ('t, 'p) image = Tensor 't | Pil 'p

definition encode_image :: "('t, 'p) imaging \<Rightarrow> ('t, 'p) image \<Rightarrow> exn + string" where
  "encode_image lib image0 =
     (case (case image0 of Tensor t \<Rightarrow> tensor_to_pil lib t | Pil p \<Rightarrow> Inr p) of
        Inl e \<Rightarrow> Inl e
      | Inr image1 \<Rightarrow>
          (let target_size = (384, 384) in
           case resize_lanczos lib image1 target_size of
             Inl e \<Rightarrow> Inl e
           | Inr image2 \<Rightarrow>
               (case save_jpeg lib image2 30 of
                  Inl e \<Rightarrow> Inl e
                | Inr buffered \<Rightarrow> Inr (b64encode buffered))))"

text \<open>
  What the resolution of the encoded frame relies on from PIL, given a reading of an image's
  size and a JPEG decoder (\<^verbatim>\<open>Image.open\<close> on the bytes): \<^verbatim>\<open>resize\<close> returns an image of
  the size asked for, the JPEG writer emits bytes, and decoding them gives an image of the
  size that was saved.
\<close>

definition jpeg_library ::
  "('t, 'p) imaging \<Rightarrow> ('p \<Rightarrow> nat \<times> nat) \<Rightarrow> (nat list \<Rightarrow> 'p option) \<Rightarrow> bool" where
  "jpeg_library lib size_of open_jpeg \<longleftrightarrow>
     (\<forall>p target p'. resize_lanczos lib p target = Inr p' \<longrightarrow> size_of p' = target) \<and>
     (\<forall>p q bytes. save_jpeg lib p q = Inr bytes \<longrightarrow>
        (\<forall>b\<in>set bytes. b < 256) \<and>
        (\<exists>p'. open_jpeg bytes = Some p' \<and> size_of p' = size_of p))"

section \<open>RunwayVideoGenerator.generate_video\<close>

definition prompt_image :: "string \<Rightarrow> string \<Rightarrow> json" where
  "prompt_image b64 position =
     JObj [(''uri'', JStr (''data:image/jpeg;base64,'' @ b64)), (''position'', JStr position)]"

definition post_headers :: "string \<Rightarrow> (string \<times> string) list" where
  "post_headers api_key =
     [(''Authorization'', ''Bearer '' @ api_key), (''X-Runway-Version'', ''2024-11-06''),
      (''Content-Type'', ''application/json'')]"

text \<open>Lines 92 to 111, given the two encoded frames, and the request of lines 116 to 124.\<close>

definition build_payload ::
  "string \<Rightarrow> string \<Rightarrow> string \<Rightarrow> string \<Rightarrow> int \<Rightarrow> string \<Rightarrow> int \<Rightarrow> bool \<Rightarrow> json" where
  "build_payload first_b64 last_b64 promptText model duration ratio seed watermark =
     (let prompt_images =
            JArr [prompt_image first_b64 ''first'', prompt_image last_b64 ''last'']
      in JObj [(''promptImage'', prompt_images),
               (''promptText'', JStr promptText),
               (''model'', JStr model),
               (''duration'', JNum duration),
               (''ratio'', JStr ratio),
               (''seed'', JNum seed),
               (''watermark'', JBool watermark)])"

definition submit_request :: "json \<Rightarrow> string \<Rightarrow> request" where
  "submit_request payload api_key = Post Image_to_video (post_headers api_key) payload"

text \<open>
  Lines 116 to 138: the body of the \<^verbatim>\<open>try\<close>. \<^verbatim>\<open>initial_result.get("id")\<close> needs a dict
  (anything else has no \<^verbatim>\<open>get\<close>) and yields \<^verbatim>\<open>None\<close> when the key is missing.
\<close>

definition submit_and_poll ::
  "network \<Rightarrow> json \<Rightarrow> string \<Rightarrow> int \<Rightarrow> world \<Rightarrow> (exn + json \<times> json) \<times> world" where
  "submit_and_poll net payload api_key max_wait w =
     (let (out, w1) = http net (submit_request payload api_key) w in
      case out of
        Inl e \<Rightarrow> (Inl e, w1)
      | Inr response \<Rightarrow>
          (case raise_for_status response of
             Inl e \<Rightarrow> (Inl e, w1)
           | Inr _ \<Rightarrow>
               (case json_body response of
                  Inl e \<Rightarrow> (Inl e, w1)
                | Inr initial_result \<Rightarrow>
                    (case initial_result of
                       JObj kv \<Rightarrow>
                         (let task_id = dict_get kv ''id'' JNull in
                          if \<not> truthy task_id then (Inl (RuntimeError No_task_ID), w1)
                          else
                            (case poll_status net task_id api_key max_wait w1 of
                               (Inl e, w2) \<Rightarrow> (Inl e, w2)
                             | (Inr final_result, w2) \<Rightarrow>
                                 (case final_result of
                                    JObj kv2 \<Rightarrow>
                                      (Inr (dict_get kv2 ''video_url'' (JStr []), task_id), w2)
                                  | _ \<Rightarrow> (Inl AttributeError, w2))))
                     | _ \<Rightarrow> (Inl AttributeError, w1)))))"

text \<open>
  A decoded submission answer carries no task identifier when it is not a JSON object with
  a truthy \<open>id\<close>: the body is not JSON, is JSON of another kind, or is an object whose \<open>id\<close>
  is missing or falsy.
\<close>

definition lacks_task_id :: "exn + json \<Rightarrow> bool" where
  "lacks_task_id decoded =
     (case decoded of
        Inr (JObj kv) \<Rightarrow> \<not> truthy (dict_get kv ''id'' JNull)
      | _ \<Rightarrow> True)"

text \<open>
  The whole entry point. The two encodings happen before the \<^verbatim>\<open>try\<close>. The handler of
  line 140 catches only \<^verbatim>\<open>RequestException\<close>; line 141 reads \<^verbatim>\<open>e.response.text\<close> when
  the exception has a \<^verbatim>\<open>response\<close> attribute, which raises \<^verbatim>\<open>AttributeError\<close> when the
  attribute is \<^verbatim>\<open>None\<close>.
\<close>

definition generate_video ::
  "('t, 'p) imaging \<Rightarrow> network \<Rightarrow> ('t, 'p) image \<Rightarrow> ('t, 'p) image \<Rightarrow> string \<Rightarrow> string \<Rightarrow>
   int \<Rightarrow> string \<Rightarrow> int \<Rightarrow> bool \<Rightarrow> string \<Rightarrow> bool \<Rightarrow> int \<Rightarrow> world \<Rightarrow>
   (exn + json \<times> json \<times> ('t, 'p) image) \<times> world" where
  "generate_video lib net first_frame last_frame promptText model duration ratio seed watermark
     api_key trigger max_wait w =
     (if \<not> trigger then (Inr (JStr [], JStr [], first_frame), w)
      else
        (case encode_image lib first_frame of
           Inl e \<Rightarrow> (Inl e, w)
         | Inr first_b64 \<Rightarrow>
             (case encode_image lib last_frame of
                Inl e \<Rightarrow> (Inl e, w)
              | Inr last_b64 \<Rightarrow>
                  (let payload = build_payload first_b64 last_b64 promptText model duration
                                   ratio seed watermark
                   in case submit_and_poll net payload api_key max_wait w of
                        (Inr (video_url, task_id), w1) \<Rightarrow> (Inr (video_url, task_id, first_frame), w1)
                      | (Inl e, w1) \<Rightarrow>
                          (if is_request_exception e then
                             (case response_attr e of
                                Some None \<Rightarrow> (Inl AttributeError, w1)
                              | _ \<Rightarrow> (Inl (RuntimeError (Runway_API_error (exn_str e))), w1))
                           else (Inl e, w1))))))"

section \<open>RunwayVideoPreview.preview_video\<close>

text \<open>\<^verbatim>\<open>os.path.join\<close> (POSIX) on two components.\<close>

definition path_join :: "string \<Rightarrow> string \<Rightarrow> string" where
  "path_join a b =
     (if b \<noteq> [] \<and> hd b = CHR ''/'' then b
      else if a = [] \<or> last a = CHR ''/'' then a @ b
      else a @ ''/'' @ b)"

text \<open>
  The file system decides whether \<^verbatim>\<open>open(path, "wb")\<close> followed by \<^verbatim>\<open>f.write\<close>
  succeeds on a path.
\<close>

type_synonym filesystem = "string \<Rightarrow> exn option"

definition write_file :: "filesystem \<Rightarrow> string \<Rightarrow> string \<Rightarrow> world \<Rightarrow> (exn + unit) \<times> world" where
  "write_file fs path content w =
     (case fs path of
        Some e \<Rightarrow> (Inl e, w)
      | None \<Rightarrow> (Inr (), w\<lparr>files := files w @ [(path, content)]\<rparr>))"

text \<open>
  What the method hands back: \<^verbatim>\<open>("")\<close> is the bare string, \<^verbatim>\<open>(x,)\<close> a tuple of one
  element.
\<close>

datatype pyret = Bare string | Tuple1 string

text \<open>Lines 166 to 173: the body of the \<^verbatim>\<open>try\<close>; line 167 sends no headers.\<close>

definition download_request :: "string \<Rightarrow> request" where
  "download_request video_url = Get (Location video_url) []"

definition download ::
  "network \<Rightarrow> filesystem \<Rightarrow> string \<Rightarrow> string \<Rightarrow> world \<Rightarrow> (exn + pyret) \<times> world" where
  "download net fs video_url filename w =
     (let save_path = path_join ''output'' filename;
          (out, w1) = http net (download_request video_url) w
      in case out of
           Inl e \<Rightarrow> (Inl e, w1)
         | Inr response \<Rightarrow>
             (case raise_for_status response of
                Inl e \<Rightarrow> (Inl e, w1)
              | Inr _ \<Rightarrow>
                  (case write_file fs save_path (body response) w1 of
                     (Inl e, w2) \<Rightarrow> (Inl e, w2)
                   | (Inr _, w2) \<Rightarrow> (Inr (Tuple1 save_path), w2))))"

definition preview_video ::
  "network \<Rightarrow> filesystem \<Rightarrow> string \<Rightarrow> bool \<Rightarrow> string \<Rightarrow> world \<Rightarrow> (exn + pyret) \<times> world" where
  "preview_video net fs video_url dl filename w =
     (if video_url = [] then (Inr (Bare []), w)
      else if dl then
        (case download net fs video_url filename w of
           (Inr r, w1) \<Rightarrow> (Inr r, w1)
         | (Inl e, w1) \<Rightarrow> (Inr (Tuple1 video_url), w1))
      else (Inr (Tuple1 video_url), w))"

section \<open>Concrete worlds for the runs evaluated below\<close>

text \<open>A response with status 200 whose body decodes to \<open>j\<close>, arriving after \<open>ms\<close> milliseconds.\<close>

definition reply :: "nat \<Rightarrow> json \<Rightarrow> nat \<times> (exn + http_response)" where
  "reply ms j = (ms, Inr \<lparr>status_code = 200, body = [], json_body = Inr j\<rparr>)"

text \<open>
  A network that answers the \<open>i\<close>-th request with the \<open>i\<close>-th entry of a script, and
  refuses the connection once the script is used up.
\<close>

definition scripted :: "(nat \<times> (exn + http_response)) list \<Rightarrow> network" where
  "scripted rs hist =
     (if hist \<noteq> [] \<and> length hist \<le> length rs then rs ! (length hist - 1)
      else (0, Inl (Foreign True (Some None) ''ConnectionError'')))"

definition w0 :: world where
  "w0 = \<lparr>clock = 0, sent = [], files = []\<rparr>"

definition writable :: filesystem where
  "writable path = None"

text \<open>A network that gives every request the same answer.\<close>

definition always :: "nat \<times> (exn + http_response) \<Rightarrow> network" where
  "always r hist = r"

text \<open>
  A stand-in imaging library. A tensor is its shape \<open>[batch, height, width, channels]\<close>, a
  PIL image its number of channels, width and height. The conversion accepts one frame of
  three or four channels and raises \<^verbatim>\<open>TypeError\<close> otherwise; the JPEG writer refuses an
  alpha channel and a side outside 1 to 65535, and emits the start-of-image marker, the two
  sides in 16 bits each and the end-of-image marker; the decoder reads them back.
\<close>

definition toy_pil :: "(nat list, nat \<times> nat \<times> nat) imaging" where
  "toy_pil =
     \<lparr>tensor_to_pil =
        (\<lambda>shape. case shape of
                    [b, h, w, c] \<Rightarrow>
                      if b = 1 \<and> (c = 3 \<or> c = 4) then Inr (c, w, h) else Inl TypeError
                  | _ \<Rightarrow> Inl TypeError),
      resize_lanczos = (\<lambda>p target. Inr (fst p, target)),
      save_jpeg =
        (\<lambda>p q. case p of
                  (c, w, h) \<Rightarrow>
                    if c = 3 \<and> 0 < w \<and> w < 65536 \<and> 0 < h \<and> h < 65536
                    then Inr [255, 216, w div 256, w mod 256, h div 256, h mod 256, 255, 217]
                    else Inl (Foreign False None ''OSError''))\<rparr>"

definition toy_size :: "nat \<times> nat \<times> nat \<Rightarrow> nat \<times> nat" where
  "toy_size p = snd p"

definition toy_open :: "nat list \<Rightarrow> (nat \<times> nat \<times> nat) option" where
  "toy_open bytes =
     (if length bytes = 8 \<and> take 2 bytes = [255, 216] \<and> drop 6 bytes = [255, 217]
      then Some (3, bytes ! 2 * 256 + bytes ! 3, bytes ! 4 * 256 + bytes ! 5)
      else None)"

text \<open>One frame of 1280 by 768 in three channels, and a batch of two such frames.\<close>

definition frame :: "(nat list, nat \<times> nat \<times> nat) image" where
  "frame = Tensor [1, 768, 1280, 3]"

definition two_frames :: "(nat list, nat \<times> nat \<times> nat) image" where
  "two_frames = Tensor [2, 768, 1280, 3]"

text \<open>Status bodies, and the script of three status checks.\<close>

definition running :: json where
  "running = JObj [(''status'', JStr ''RUNNING'')]"

definition failed :: json where
  "failed = JObj [(''status'', JStr ''FAILED'')]"

definition succeeded :: "string \<Rightarrow> json" where
  "succeeded url = JObj [(''status'', JStr ''SUCCEEDED''), (''output'', JArr [JStr url])]"

definition three_checks :: network where
  "three_checks = scripted [reply 0 running, reply 0 running,
                            reply 0 (succeeded ''https://x/video.mp4'')]"

text \<open>A submission answered with status 200 and a body that has no \<open>id\<close>.\<close>

definition no_id :: network where
  "no_id = scripted [reply 300 (JObj [(''status'', JStr ''PENDING'')])]"

text \<open>A submission answered with status 200 and the body \<^verbatim>\<open>null\<close>.\<close>

definition null_body :: network where
  "null_body = scripted [reply 300 JNull]"

section \<open>The skip branch of generate_video\<close>

text \<open>
  Claim C2. With \<open>trigger\<close> false, \<open>generate_video\<close> returns at once: the result is the
  empty string for \<open>video_url\<close> and for \<open>generation_id\<close> together with the input
  \<open>first_frame\<close>, and the world is the one it started in (no request sent, no time spent,
  no image encoded).
\<close>

theorem generate_video_skip:
  "generate_video lib net first_frame last_frame promptText model duration ratio seed
     watermark api_key False max_wait w = (Inr (JStr [], JStr [], first_frame), w)"
  by (simp add: generate_video_def)

section \<open>preview_video\<close>

text \<open>
  Claim C5. With \<open>download\<close> false, \<open>preview_video\<close> hands back the URL it was given (as a
  tuple of one element, or as the bare string when the URL is empty) and leaves the world
  untouched: no HTTP request, no file.
\<close>

theorem preview_video_no_download:
  "preview_video net fs video_url False filename w =
     (Inr (if video_url = [] then Bare video_url else Tuple1 video_url), w)"
  by (simp add: preview_video_def)

text \<open>
  Claim C6. For a non-empty URL and \<open>download\<close> true, when the GET raises, or answers with
  an error status, or the file cannot be written, \<open>preview_video\<close> returns normally
  (\<open>Inr\<close>: no exception leaves it) and the value is the tuple of the original URL.
\<close>

theorem preview_video_download_failure:
  assumes "video_url \<noteq> []"
    and "(\<exists>e. snd (net (sent w @ [download_request video_url])) = Inl e) \<or>
         (\<exists>r. snd (net (sent w @ [download_request video_url])) = Inr r \<and>
              (\<not> ok r \<or> (\<exists>e. fs (path_join ''output'' filename) = Some e)))"
  shows "fst (preview_video net fs video_url True filename w) = Inr (Tuple1 video_url)"
  using assms
  by (auto simp: preview_video_def download_def http_def write_file_def Let_def
                 raise_for_status_def
           split: prod.splits sum.splits option.splits)

theorem preview_video_download_failure_witness:
  "''https://x/video.mp4'' \<noteq> [] \<and>
   snd (scripted [] (sent w0 @ [download_request ''https://x/video.mp4''])) =
     Inl (Foreign True (Some None) ''ConnectionError'') \<and>
   fst (preview_video (scripted []) writable ''https://x/video.mp4'' True
          ''runway_video.mp4'' w0) = Inr (Tuple1 ''https://x/video.mp4'')"
proof -
  have h: "snd (scripted [] (sent w0 @ [download_request ''https://x/video.mp4''])) =
             Inl (Foreign True (Some None) ''ConnectionError'')"
    by (simp add: scripted_def)
  have "fst (preview_video (scripted []) writable ''https://x/video.mp4'' True
               ''runway_video.mp4'' w0) = Inr (Tuple1 ''https://x/video.mp4'')"
    by (rule preview_video_download_failure) (simp_all add: h)
  with h show ?thesis by simp
qed

text \<open>
  Claim C9. With an empty URL, whatever \<open>download\<close> and \<open>filename\<close> are, \<open>preview_video\<close>
  returns the bare string \<^verbatim>\<open>""\<close> and touches nothing (no request even when \<open>download\<close>
  is true); for every non-empty URL it returns a tuple of one element.
\<close>

theorem preview_video_empty_url:
  "preview_video net fs [] dl filename w = (Inr (Bare []), w) \<and>
   (\<forall>video_url. video_url \<noteq> [] \<longrightarrow>
      (\<exists>p. fst (preview_video net fs video_url dl filename w) = Inr (Tuple1 p)))"
  by (auto simp: preview_video_def download_def http_def write_file_def Let_def
           split: prod.splits sum.splits option.splits)

theorem preview_video_empty_url_witness:
  "preview_video (scripted []) writable [] True ''runway_video.mp4'' w0 = (Inr (Bare []), w0) \<and>
   (\<exists>p. fst (preview_video (scripted []) writable ''https://x/video.mp4'' True
              ''runway_video.mp4'' w0) = Inr (Tuple1 p))"
  using preview_video_empty_url [of "scripted []" writable True "''runway_video.mp4''" w0]
  by simp

section \<open>poll_status\<close>

text \<open>
  Claim C10. When \<open>max_wait\<close> is zero or negative the loop test fails at once:
  \<open>poll_status\<close> raises the timeout error reporting zero attempts, in the world it started
  in (no status request, no sleep).
\<close>

theorem poll_status_no_time:
  assumes "max_wait \<le> 0"
  shows "poll_status net task_id api_key max_wait w =
           (Inl (RuntimeError (Timeout_after max_wait 0)), w)"
  using assms by (simp add: poll_status_def)

theorem poll_status_no_time_witness:
  "(-5::int) \<le> 0 \<and>
   poll_status (scripted []) (JStr ''t1'') ''key'' (-5) w0 =
     (Inl (RuntimeError (Timeout_after (-5) 0)), w0) \<and>
   sent w0 = []"
  using poll_status_no_time [of "-5" "scripted []" "JStr ''t1''" "''key''" w0]
  by (simp add: w0_def)

subsection \<open>One attempt\<close>

lemma poll_attempt_world:
  "poll_attempt net task_id api_key w = (r, w1) \<Longrightarrow>
   w1 = w\<lparr>clock := clock w + int (fst (net (sent w @ [status_request task_id api_key]))),
          sent := sent w @ [status_request task_id api_key]\<rparr>"
  by (auto simp: poll_attempt_def http_def Let_def split: prod.splits)



lemma poll_attempt_pending:
  assumes "net (sent w @ [status_request task_id api_key]) = (ms, Inr r)"
    and "ok r" and "json_body r = Inr (JObj kv)"
    and "map_of kv ''status'' = Some (JStr ''RUNNING'')"
  shows "poll_attempt net task_id api_key w =
           (Inr None, w\<lparr>clock := clock w + int ms,
                          sent := sent w @ [status_request task_id api_key]\<rparr>)"
  using assms
  by (simp add: poll_attempt_def http_def raise_for_status_def check_status_def dict_get_def)

lemma poll_attempt_succeeded:
  assumes "net (sent w @ [status_request task_id api_key]) = (ms, Inr r)"
    and "ok r" and "json_body r = Inr (JObj kv)"
    and "map_of kv ''status'' = Some (JStr ''SUCCEEDED'')"
    and "map_of kv ''output'' = Some (JArr (v # vs))"
  shows "poll_attempt net task_id api_key w =
           (Inr (Some (JObj (AList.update ''video_url'' v kv))),
            w\<lparr>clock := clock w + int ms,
              sent := sent w @ [status_request task_id api_key]\<rparr>)"
  using assms
  by (simp add: poll_attempt_def http_def raise_for_status_def check_status_def dict_get_def)

subsection \<open>The loop\<close>

lemma poll_loop_continue:
  assumes "clock w < end_time"
    and "poll_attempt net task_id api_key w = (r, w1)"
    and "r = Inr None \<or> (\<exists>e. r = Inl e \<and> response_attr e \<noteq> Some None)"
  shows "poll_loop net task_id api_key max_wait end_time attempts w =
           poll_loop net task_id api_key max_wait end_time (Suc attempts) (sleep 10 w1)"
  using assms
  by (subst poll_loop.simps) (auto split: option.splits simp del: poll_loop.simps)

lemma poll_loop_return:
  assumes "clock w < end_time"
    and "poll_attempt net task_id api_key w = (Inr (Some result), w1)"
  shows "poll_loop net task_id api_key max_wait end_time attempts w = (Inr result, w1)"
  using assms by (subst poll_loop.simps) simp



lemmas run_defs = poll_status_def w0_def poll_attempt_def http_def reply_def always_def
  scripted_def raise_for_status_def ok_def check_status_def dict_get_def sleep_def
  status_request_def Let_def

subsection \<open>A remote failure\<close>

text \<open>
  Claim C1. The claim says that the first \<open>FAILED\<close> (or \<open>CANCELED\<close>) status makes
  \<open>poll_status\<close> raise the task error at once, with no further request. The
  \<^verbatim>\<open>raise\<close> of line 77 stands inside the \<^verbatim>\<open>try\<close> whose handler (line 80) catches
  every \<^verbatim>\<open>Exception\<close>: against a service that answers \<open>FAILED\<close> each time, a call with
  \<open>max_wait = 60\<close> sends six status requests, sleeps ten seconds after each, and ends in the
  timeout error after 60 seconds.
\<close>

theorem poll_status_failed_is_retried:
  "poll_status (always (reply 0 failed)) (JStr ''t1'') ''key'' 60 w0 =
     (Inl (RuntimeError (Timeout_after 60 6)),
      \<lparr>clock = 60000, sent = replicate 6 (status_request (JStr ''t1'') ''key''), files = []\<rparr>)"
  by (simp add: run_defs failed_def numeral_eq_Suc)

subsection \<open>Success on the third check\<close>

text \<open>
  Claim C4. When the first two status checks answer \<open>RUNNING\<close> and the third answers
  \<open>SUCCEEDED\<close> with \<open>output = [url]\<close>, and the deadline leaves room for three attempts
  (the two requests and the two ten-second sleeps before the third check end before
  \<open>max_wait\<close> seconds have passed; with immediate answers: \<open>max_wait > 20\<close>), then
  \<open>poll_status\<close> returns the third body with \<open>video_url\<close> set to \<open>url\<close>, having sent
  exactly three status requests.
\<close>

theorem poll_status_third_check_succeeds:
  assumes ra: "net (sent w @ [status_request task_id api_key]) = (ms_a, Inr ra)"
      "ok ra" "json_body ra = Inr (JObj kv_a)" "map_of kv_a ''status'' = Some (JStr ''RUNNING'')"
    and rb: "net (sent w @ [status_request task_id api_key, status_request task_id api_key])
               = (ms_b, Inr rb)"
      "ok rb" "json_body rb = Inr (JObj kv_b)" "map_of kv_b ''status'' = Some (JStr ''RUNNING'')"
    and rc: "net (sent w @ [status_request task_id api_key, status_request task_id api_key,
                            status_request task_id api_key]) = (ms_c, Inr rc)"
      "ok rc" "json_body rc = Inr (JObj kv_c)" "map_of kv_c ''status'' = Some (JStr ''SUCCEEDED'')"
      "map_of kv_c ''output'' = Some (JArr [JStr url])"
    and fit: "int ms_a + 10000 + int ms_b + 10000 < 1000 * max_wait"
  shows "fst (poll_status net task_id api_key max_wait w) =
           Inr (JObj (AList.update ''video_url'' (JStr url) kv_c)) \<and>
         dict_get (AList.update ''video_url'' (JStr url) kv_c) ''video_url'' (JStr []) = JStr url \<and>
         sent (snd (poll_status net task_id api_key max_wait w)) =
           sent w @ replicate 3 (status_request task_id api_key)"
proof -
  let ?g = "status_request task_id api_key"
  let ?end = "clock w + 1000 * max_wait"
  let ?w1 = "w\<lparr>clock := clock w + int ms_a, sent := sent w @ [?g]\<rparr>"
  let ?w2 = "(sleep 10 ?w1)\<lparr>clock := clock (sleep 10 ?w1) + int ms_b,
                sent := sent (sleep 10 ?w1) @ [?g]\<rparr>"
  let ?w3 = "(sleep 10 ?w2)\<lparr>clock := clock (sleep 10 ?w2) + int ms_c,
                sent := sent (sleep 10 ?w2) @ [?g]\<rparr>"
  have a0: "poll_attempt net task_id api_key w = (Inr None, ?w1)"
    using ra by (rule poll_attempt_pending)
  have a1: "poll_attempt net task_id api_key (sleep 10 ?w1) = (Inr None, ?w2)"
    by (rule poll_attempt_pending [where r = rb and kv = kv_b])
       (use rb in \<open>simp_all add: sleep_def\<close>)
  have a2: "poll_attempt net task_id api_key (sleep 10 ?w2) =
              (Inr (Some (JObj (AList.update ''video_url'' (JStr url) kv_c))), ?w3)"
    by (rule poll_attempt_succeeded [where r = rc])
       (use rc in \<open>simp_all add: sleep_def\<close>)
  have t0: "clock w < ?end" using fit by simp
  have t1: "clock (sleep 10 ?w1) < ?end" using fit by (simp add: sleep_def)
  have t2: "clock (sleep 10 ?w2) < ?end" using fit by (simp add: sleep_def)
  have "poll_status net task_id api_key max_wait w =
          poll_loop net task_id api_key max_wait ?end 0 w"
    by (simp add: poll_status_def Let_def del: poll_loop.simps)
  also have "\<dots> = poll_loop net task_id api_key max_wait ?end (Suc 0) (sleep 10 ?w1)"
    by (rule poll_loop_continue [OF t0 a0]) simp
  also have "\<dots> = poll_loop net task_id api_key max_wait ?end (Suc (Suc 0)) (sleep 10 ?w2)"
    by (rule poll_loop_continue [OF t1 a1]) simp
  also have "\<dots> = (Inr (JObj (AList.update ''video_url'' (JStr url) kv_c)), ?w3)"
    by (rule poll_loop_return [OF t2 a2])
  finally have run: "poll_status net task_id api_key max_wait w =
      (Inr (JObj (AList.update ''video_url'' (JStr url) kv_c)), ?w3)" .
  have "dict_get (AList.update ''video_url'' (JStr url) kv_c) ''video_url'' (JStr []) = JStr url"
    by (simp add: dict_get_def update_conv')
  moreover have "sent ?w3 = sent w @ replicate 3 ?g"
    by (simp add: sleep_def numeral_3_eq_3)
  ultimately show ?thesis by (simp only: run fst_conv snd_conv)
qed

theorem poll_status_third_check_succeeds_witness:
  "int 0 + 10000 + int 0 + 10000 < 1000 * (21::int) \<and>
   fst (poll_status three_checks (JStr ''t1'') ''key'' 21 w0) =
     Inr (JObj [(''status'', JStr ''SUCCEEDED''),
                (''output'', JArr [JStr ''https://x/video.mp4'']),
                (''video_url'', JStr ''https://x/video.mp4'')]) \<and>
   sent (snd (poll_status three_checks (JStr ''t1'') ''key'' 21 w0)) =
     replicate 3 (status_request (JStr ''t1'') ''key'')"
proof -
  let ?ok = "\<lambda>j. \<lparr>status_code = 200, body = [], json_body = Inr j\<rparr>"
  have "fst (poll_status three_checks (JStr ''t1'') ''key'' 21 w0) =
           Inr (JObj (AList.update ''video_url'' (JStr ''https://x/video.mp4'')
                  [(''status'', JStr ''SUCCEEDED''),
                   (''output'', JArr [JStr ''https://x/video.mp4''])])) \<and>
         dict_get (AList.update ''video_url'' (JStr ''https://x/video.mp4'')
                  [(''status'', JStr ''SUCCEEDED''),
                   (''output'', JArr [JStr ''https://x/video.mp4''])]) ''video_url'' (JStr [])
           = JStr ''https://x/video.mp4'' \<and>
         sent (snd (poll_status three_checks (JStr ''t1'') ''key'' 21 w0)) =
           sent w0 @ replicate 3 (status_request (JStr ''t1'') ''key'')"
    by (rule poll_status_third_check_succeeds
          [where ms_a = 0 and ms_b = 0 and ms_c = 0
             and ra = "?ok running" and rb = "?ok running"
             and rc = "?ok (succeeded ''https://x/video.mp4'')"
             and kv_a = "[(''status'', JStr ''RUNNING'')]"
             and kv_b = "[(''status'', JStr ''RUNNING'')]"])
       (simp_all add: three_checks_def scripted_def reply_def w0_def ok_def running_def
          succeeded_def)
  then show ?thesis by (simp add: w0_def)
qed

subsection \<open>The deadline\<close>

text \<open>
  What the hypothesis \<open>loggable\<close> leaves out: when a status request raises an exception whose
  \<^verbatim>\<open>response\<close> attribute is \<^verbatim>\<open>None\<close>, line 83 raises \<^verbatim>\<open>AttributeError\<close> inside the
  handler and that exception leaves \<open>poll_status\<close>, before any sleep.
\<close>

lemma poll_status_response_none:
  assumes "0 < max_wait"
    and "net (sent w @ [status_request task_id api_key]) = (ms, Inl e)"
    and "response_attr e = Some None"
  shows "poll_status net task_id api_key max_wait w =
           (Inl AttributeError,
            w\<lparr>clock := clock w + int ms, sent := sent w @ [status_request task_id api_key]\<rparr>)"
  using assms by (simp add: poll_status_def poll_attempt_def http_def)




section \<open>generate_video\<close>

subsection \<open>The requests sent\<close>

text \<open>
  Polling only adds to the requests sent, and \<open>generate_video\<close> with \<open>trigger\<close> true and
  both frames encoded sends the POST of line 116 first.
\<close>

lemma poll_loop_sent:
  "prefix (sent w) (sent (snd (poll_loop net task_id api_key max_wait end_time attempts w)))"
proof (induction net task_id api_key max_wait end_time attempts w rule: poll_loop.induct)
  case (1 net task_id api_key max_wait end_time attempts w)
  show ?case
  proof (cases "clock w < end_time")
    case False
    then show ?thesis by simp
  next
    case True
    obtain r w1 where pa: "poll_attempt net task_id api_key w = (r, w1)"
      by force
    from poll_attempt_world [OF pa]
    have snt: "sent (sleep 10 w1) = sent w @ [status_request task_id api_key]"
      and snt1: "sent w1 = sent w @ [status_request task_id api_key]"
      by (simp_all add: sleep_def)
    have step: "prefix (sent (sleep 10 w1)) (sent (snd (poll_loop net task_id api_key max_wait
                  end_time (Suc attempts) (sleep 10 w1)))) \<Longrightarrow>
                prefix (sent w) (sent (snd (poll_loop net task_id api_key max_wait
                  end_time (Suc attempts) (sleep 10 w1))))"
      unfolding snt by (rule append_prefixD)
    show ?thesis
    proof (cases r)
      case (Inr y)
      show ?thesis
      proof (cases y)
        case None
        have "prefix (sent w) (sent (snd (poll_loop net task_id api_key max_wait
                  end_time (Suc attempts) (sleep 10 w1))))"
          by (rule step, rule "1.IH"(3) [OF True pa [symmetric] Inr None])
        moreover have "poll_loop net task_id api_key max_wait end_time attempts w =
           poll_loop net task_id api_key max_wait end_time (Suc attempts) (sleep 10 w1)"
          by (rule poll_loop_continue [OF True pa]) (simp add: Inr None)
        ultimately show ?thesis by (simp del: poll_loop.simps)
      next
        case (Some result)
        with Inr pa True have
          "poll_loop net task_id api_key max_wait end_time attempts w = (Inr result, w1)"
          by (simp add: poll_loop_return del: poll_loop.simps)
        then show ?thesis by (simp add: snt1 del: poll_loop.simps)
      qed
    next
      case (Inl e)
      show ?thesis
      proof (cases "response_attr e")
        case None
        have "prefix (sent w) (sent (snd (poll_loop net task_id api_key max_wait
                  end_time (Suc attempts) (sleep 10 w1))))"
          by (rule step, rule "1.IH"(1) [OF True pa [symmetric] Inl None])
        moreover have "poll_loop net task_id api_key max_wait end_time attempts w =
           poll_loop net task_id api_key max_wait end_time (Suc attempts) (sleep 10 w1)"
          by (rule poll_loop_continue [OF True pa]) (simp add: Inl None)
        ultimately show ?thesis by (simp del: poll_loop.simps)
      next
        case (Some t)
        show ?thesis
        proof (cases t)
          case None
          with Some Inl pa True have
            "poll_loop net task_id api_key max_wait end_time attempts w = (Inl AttributeError, w1)"
            by (subst poll_loop.simps) simp
          then show ?thesis by (simp add: snt1 del: poll_loop.simps)
        next
          case (Some s)
          have "prefix (sent w) (sent (snd (poll_loop net task_id api_key max_wait
                  end_time (Suc attempts) (sleep 10 w1))))"
            by (rule step, rule "1.IH"(2) [OF True pa [symmetric] Inl \<open>response_attr e = Some t\<close> Some])
          moreover have "poll_loop net task_id api_key max_wait end_time attempts w =
             poll_loop net task_id api_key max_wait end_time (Suc attempts) (sleep 10 w1)"
            by (rule poll_loop_continue [OF True pa])
               (simp add: Inl \<open>response_attr e = Some t\<close> Some)
          ultimately show ?thesis by (simp del: poll_loop.simps)
        qed
      qed
    qed
  qed
qed

lemma poll_status_sent:
  "prefix (sent w) (sent (snd (poll_status net task_id api_key max_wait w)))"
  unfolding poll_status_def Let_def by (rule poll_loop_sent)

lemma submit_and_poll_sent:
  "prefix (sent w @ [submit_request payload api_key])
     (sent (snd (submit_and_poll net payload api_key max_wait w)))"
proof -
  let ?w1 = "w\<lparr>clock := clock w + int (fst (net (sent w @ [submit_request payload api_key]))),
               sent := sent w @ [submit_request payload api_key]\<rparr>"
  have p: "prefix (sent ?w1) (sent (snd (poll_status net task_id api_key max_wait ?w1)))"
    for task_id by (rule poll_status_sent)
  have q: "sent w2 = sent (snd (poll_status net task_id api_key max_wait ?w1))"
    if "poll_status net task_id api_key max_wait ?w1 = (x, w2)" for task_id x w2
    using that by simp
  show ?thesis
    unfolding submit_and_poll_def http_def Let_def
    using p by (auto split: sum.splits json.splits prod.splits dest!: q simp del: poll_loop.simps)
qed

lemma generate_video_sent:
  assumes "encode_image lib first_frame = Inr first_b64"
    and "encode_image lib last_frame = Inr last_b64"
  shows "prefix (sent w @ [submit_request (build_payload first_b64 last_b64 promptText model
                             duration ratio seed watermark) api_key])
           (sent (snd (generate_video lib net first_frame last_frame promptText model duration
                         ratio seed watermark api_key True max_wait w)))"
proof -
  let ?payload = "build_payload first_b64 last_b64 promptText model duration ratio seed watermark"
  have p: "prefix (sent w @ [submit_request ?payload api_key])
             (sent (snd (submit_and_poll net ?payload api_key max_wait w)))"
    by (rule submit_and_poll_sent)
  show ?thesis
    using assms p
    by (cases "submit_and_poll net ?payload api_key max_wait w")
       (auto simp: generate_video_def Let_def split: sum.splits option.splits)
qed

subsection \<open>A submission without a task id\<close>

lemma encode_frame: "encode_image toy_pil frame = Inr ''/9gBgAGA/9k=''"
  by (simp add: encode_image_def toy_pil_def frame_def b64_char_def b64_alphabet_def)

text \<open>
  Claim C3. As stated the claim is false: a 2xx answer whose body is the JSON value
  \<^verbatim>\<open>null\<close> carries no task identifier, yet line 131 calls \<^verbatim>\<open>.get\<close> on it and the
  \<^verbatim>\<open>AttributeError\<close> leaves \<open>generate_video\<close> (the handler of line 140 catches
  \<^verbatim>\<open>RequestException\<close> only), not the \<^verbatim>\<open>RuntimeError\<close> of line 133.
\<close>

theorem generate_video_null_body:
  "snd (null_body [submit_request (build_payload ''/9gBgAGA/9k='' ''/9gBgAGA/9k=''
                  ''A cinematic scene'' ''gen3a_turbo'' 5 ''1280:768'' 0 False) ''key'']) =
     Inr \<lparr>status_code = 200, body = [], json_body = Inr JNull\<rparr> \<and>
   generate_video toy_pil null_body frame frame ''A cinematic scene''
       ''gen3a_turbo'' 5 ''1280:768'' 0 False ''key'' True 60 w0 =
     (Inl AttributeError,
      \<lparr>clock = 300,
        sent = [submit_request (build_payload ''/9gBgAGA/9k='' ''/9gBgAGA/9k=''
                  ''A cinematic scene'' ''gen3a_turbo'' 5 ''1280:768'' 0 False) ''key''],
        files = []\<rparr>) \<and>
   AttributeError \<noteq> RuntimeError No_task_ID"
  by (simp add: generate_video_def submit_and_poll_def http_def raise_for_status_def ok_def
        encode_frame null_body_def scripted_def reply_def w0_def del: poll_loop.simps)

text \<open>
  Claim C3, as amended. When both frames encode and the POST is answered with a 2xx status
  and a body that carries no task identifier (not JSON, JSON that is not an object, or an
  object whose \<open>id\<close> is missing or falsy), \<open>generate_video\<close> raises an exception and the
  POST is the only request sent, so no status request is made; when the body is a JSON
  object the exception is the \<^verbatim>\<open>RuntimeError\<close> "No task ID in response".
\<close>

theorem generate_video_no_task_id:
  assumes enc: "encode_image lib first_frame = Inr first_b64"
      "encode_image lib last_frame = Inr last_b64"
    and post: "net (sent w @ [submit_request (build_payload first_b64 last_b64 promptText model
                 duration ratio seed watermark) api_key]) = (ms, Inr r)"
    and two_xx: "200 \<le> status_code r" "status_code r < 300"
    and lacks: "lacks_task_id (json_body r)"
  shows "\<exists>e. generate_video lib net first_frame last_frame promptText model duration ratio seed
                watermark api_key True max_wait w =
              (Inl e,
               w\<lparr>clock := clock w + int ms,
                 sent := sent w @ [submit_request (build_payload first_b64 last_b64 promptText
                                     model duration ratio seed watermark) api_key]\<rparr>) \<and>
             (\<forall>kv. json_body r = Inr (JObj kv) \<longrightarrow> e = RuntimeError No_task_ID)"
proof (cases "json_body r")
  case (Inl e')
  with enc post two_xx show ?thesis
    by (simp add: generate_video_def submit_and_poll_def http_def raise_for_status_def ok_def
             split: option.splits del: poll_loop.simps)
next
  case (Inr j)
  with enc post two_xx lacks show ?thesis
    by (cases j)
       (simp_all add: generate_video_def submit_and_poll_def http_def raise_for_status_def
          ok_def lacks_task_id_def del: poll_loop.simps)
qed

theorem generate_video_no_task_id_witness:
  "encode_image toy_pil frame = Inr ''/9gBgAGA/9k='' \<and>
   (200::nat) \<le> 200 \<and> (200::nat) < 300 \<and>
   lacks_task_id (Inr (JObj [(''status'', JStr ''PENDING'')])) \<and>
   generate_video toy_pil no_id frame frame ''A cinematic scene''
       ''gen3a_turbo'' 5 ''1280:768'' 0 False ''key'' True 60 w0 =
     (Inl (RuntimeError No_task_ID),
      \<lparr>clock = 300,
        sent = [submit_request (build_payload ''/9gBgAGA/9k='' ''/9gBgAGA/9k=''
                  ''A cinematic scene'' ''gen3a_turbo'' 5 ''1280:768'' 0 False) ''key''],
        files = []\<rparr>)"
proof -
  let ?r = "\<lparr>status_code = 200, body = [],
             json_body = Inr (JObj [(''status'', JStr ''PENDING'')])\<rparr>"
  have lacks: "lacks_task_id (Inr (JObj [(''status'', JStr ''PENDING'')]))"
    by (simp add: lacks_task_id_def dict_get_def)
  have post: "no_id (sent w0 @ [submit_request (build_payload ''/9gBgAGA/9k='' ''/9gBgAGA/9k=''
                  ''A cinematic scene'' ''gen3a_turbo'' 5 ''1280:768'' 0 False) ''key'']) =
               (300, Inr ?r)"
    by (simp add: no_id_def scripted_def reply_def w0_def)
  note T = generate_video_no_task_id
    [where lib = toy_pil and net = no_id and w = w0 and first_frame = frame
       and last_frame = frame and ?first_b64.0 = "''/9gBgAGA/9k=''"
       and ?last_b64.0 = "''/9gBgAGA/9k=''" and promptText = "''A cinematic scene''"
       and model = "''gen3a_turbo''" and duration = 5 and ratio = "''1280:768''"
       and seed = 0 and watermark = False and api_key = "''key''" and ms = 300
       and r = ?r and max_wait = 60]
  from T [OF encode_frame encode_frame post] lacks
  obtain e where
    "generate_video toy_pil no_id frame frame ''A cinematic scene''
       ''gen3a_turbo'' 5 ''1280:768'' 0 False ''key'' True 60 w0 =
     (Inl e,
      w0\<lparr>clock := clock w0 + int 300,
         sent := sent w0 @ [submit_request (build_payload ''/9gBgAGA/9k='' ''/9gBgAGA/9k=''
                  ''A cinematic scene'' ''gen3a_turbo'' 5 ''1280:768'' 0 False) ''key'']\<rparr>)"
    and "e = RuntimeError No_task_ID"
    by auto
  with encode_frame lacks show ?thesis by (simp add: w0_def)
qed

section \<open>encode_image\<close>

subsection \<open>Base64\<close>

lemma index_of_nth: "distinct xs \<Longrightarrow> n < length xs \<Longrightarrow> index_of (xs ! n) xs = n"
proof (induction xs arbitrary: n)
  case Nil
  then show ?case by simp
next
  case (Cons x xs)
  then show ?case by (cases n) auto
qed

lemma distinct_b64_alphabet: "distinct b64_alphabet"
  by (simp add: b64_alphabet_def)

lemma length_b64_alphabet: "length b64_alphabet = 64"
  by (simp add: b64_alphabet_def)

lemma b64_index_char: "b64_index (b64_char n) = n mod 64"
  unfolding b64_index_def b64_char_def
  by (rule index_of_nth [OF distinct_b64_alphabet]) (simp add: length_b64_alphabet)

lemma b64_index_sextet: "n < 64 \<Longrightarrow> b64_index (b64_char n) = n"
  by (simp add: b64_index_char)

lemma b64_char_in: "b64_char n \<in> set b64_alphabet"
  unfolding b64_char_def by (rule nth_mem) (simp add: length_b64_alphabet)

lemma pad_not_in: "CHR ''='' \<notin> set b64_alphabet"
  by (simp add: b64_alphabet_def)

lemma colon_not_in: "CHR '':'' \<notin> set b64_alphabet"
  by (simp add: b64_alphabet_def)

lemma b64_char_not_pad: "b64_char n \<noteq> CHR ''=''"
  using b64_char_in [of n] pad_not_in by metis

lemma b64encode_chars: "set (b64encode bs) \<subseteq> insert (CHR ''='') (set b64_alphabet)"
  by (induction bs rule: b64encode.induct) (auto simp: b64_char_in)

lemma b64encode_no_colon: "CHR '':'' \<notin> set (b64encode bs)"
  using b64encode_chars [of bs] colon_not_in by auto

lemma b64encode_not_data_uri: "\<not> prefix ''data:image/jpeg;base64,'' (b64encode bs)"
proof
  assume "prefix ''data:image/jpeg;base64,'' (b64encode bs)"
  then have "set ''data:image/jpeg;base64,'' \<subseteq> set (b64encode bs)"
    by (rule set_mono_prefix)
  then have "CHR '':'' \<in> set (b64encode bs)" by simp
  with b64encode_no_colon show False by blast
qed

text \<open>The six-bit groups of three bytes, and the bytes recovered from them.\<close>

lemma sextet_2:
  "(b::nat) < 256 \<Longrightarrow> a mod 4 * 16 + b div 16 < 64 \<and>
     (a mod 4 * 16 + b div 16) div 16 = a mod 4 \<and>
     (a mod 4 * 16 + b div 16) mod 16 = b div 16"
  by simp

lemma sextet_3:
  "(c::nat) < 256 \<Longrightarrow> b mod 16 * 4 + c div 64 < 64 \<and>
     (b mod 16 * 4 + c div 64) div 4 = b mod 16 \<and>
     (b mod 16 * 4 + c div 64) mod 4 = c div 64"
  by simp

lemma b64decode_block:
  assumes "a < 256" "b < 256" "c < 256"
  shows "b64decode (b64_char (a div 4) # b64_char (a mod 4 * 16 + b div 16) #
                    b64_char (b mod 16 * 4 + c div 64) # b64_char (c mod 64) # rest) =
           a # b # c # b64decode rest"
proof -
  have i1: "b64_index (b64_char (a div 4)) = a div 4"
    using assms(1) by (intro b64_index_sextet) simp
  have i2: "b64_index (b64_char (a mod 4 * 16 + b div 16)) = a mod 4 * 16 + b div 16"
    using sextet_2 [OF assms(2), of a] by (intro b64_index_sextet) simp
  have i3: "b64_index (b64_char (b mod 16 * 4 + c div 64)) = b mod 16 * 4 + c div 64"
    using sextet_3 [OF assms(3), of b] by (intro b64_index_sextet) simp
  have i4: "b64_index (b64_char (c mod 64)) = c mod 64"
    by (intro b64_index_sextet) simp
  have "a div 4 * 4 + (a mod 4 * 16 + b div 16) div 16 = a"
    using sextet_2 [OF assms(2), of a] by simp
  moreover have "(a mod 4 * 16 + b div 16) mod 16 * 16 + (b mod 16 * 4 + c div 64) div 4 = b"
    using sextet_2 [OF assms(2), of a] sextet_3 [OF assms(3), of b] by simp
  moreover have "(b mod 16 * 4 + c div 64) mod 4 * 64 + c mod 64 = c"
    using sextet_3 [OF assms(3), of b] by simp
  ultimately show ?thesis
    by (simp only: b64decode.simps Let_def i1 i2 i3 i4 b64_char_not_pad if_False simp_thms)
qed

lemma b64decode_last1:
  assumes "a < 256"
  shows "b64decode [b64_char (a div 4), b64_char (a mod 4 * 16), CHR ''='', CHR ''=''] = [a]"
proof -
  have i1: "b64_index (b64_char (a div 4)) = a div 4"
    using assms(1) by (intro b64_index_sextet) simp
  have i2: "b64_index (b64_char (a mod 4 * 16)) = a mod 4 * 16"
    by (intro b64_index_sextet) simp
  have "a div 4 * 4 + (a mod 4 * 16) div 16 = a" by simp
  then show ?thesis
    by (simp only: b64decode.simps Let_def i1 i2 if_True simp_thms)
qed

lemma b64decode_last2:
  assumes "a < 256" "b < 256"
  shows "b64decode [b64_char (a div 4), b64_char (a mod 4 * 16 + b div 16),
                    b64_char (b mod 16 * 4), CHR ''=''] = [a, b]"
proof -
  have i1: "b64_index (b64_char (a div 4)) = a div 4"
    using assms(1) by (intro b64_index_sextet) simp
  have i2: "b64_index (b64_char (a mod 4 * 16 + b div 16)) = a mod 4 * 16 + b div 16"
    using sextet_2 [OF assms(2), of a] by (intro b64_index_sextet) simp
  have i3: "b64_index (b64_char (b mod 16 * 4)) = b mod 16 * 4"
    by (intro b64_index_sextet) simp
  have "a div 4 * 4 + (a mod 4 * 16 + b div 16) div 16 = a"
    using sextet_2 [OF assms(2), of a] by simp
  moreover have "(a mod 4 * 16 + b div 16) mod 16 * 16 + (b mod 16 * 4) div 4 = b"
    using sextet_2 [OF assms(2), of a] by simp
  ultimately show ?thesis
    by (simp only: b64decode.simps Let_def i1 i2 i3 b64_char_not_pad if_False if_True
          simp_thms)
qed

lemma b64decode_b64encode:
  "\<forall>b\<in>set bs. b < 256 \<Longrightarrow> b64decode (b64encode bs) = bs"
proof (induction bs rule: b64encode.induct)
  case 1
  show ?case by simp
next
  case (2 a)
  then show ?case
    by (simp only: b64encode.simps) (simp add: b64decode_last1 del: b64decode.simps)
next
  case (3 a b)
  then show ?case
    by (simp only: b64encode.simps) (simp add: b64decode_last2 del: b64decode.simps)
next
  case (4 a b c rest)
  then show ?case
    by (simp only: b64encode.simps) (simp add: b64decode_block del: b64decode.simps)
qed

subsection \<open>The encoded frame\<close>

lemma jpeg_library_toy: "jpeg_library toy_pil toy_size toy_open"
  unfolding jpeg_library_def
proof (intro conjI allI impI)
  fix p :: "nat \<times> nat \<times> nat" and target p'
  assume "resize_lanczos toy_pil p target = Inr p'"
  then show "toy_size p' = target" by (auto simp: toy_pil_def toy_size_def)
next
  fix p :: "nat \<times> nat \<times> nat" and q bytes
  assume s: "save_jpeg toy_pil p q = Inr bytes"
  obtain c w h where p: "p = (c, w, h)" by (cases p)
  from s p have b: "bytes = [255, 216, w div 256, w mod 256, h div 256, h mod 256, 255, 217]"
    and w: "w < 65536" and h: "h < 65536"
    by (auto simp: toy_pil_def split: if_splits)
  from w h have "w div 256 < 256" "h div 256 < 256" by simp_all
  then show "\<forall>b\<in>set bytes. b < 256" by (simp add: b)
  show "\<exists>p'. toy_open bytes = Some p' \<and> toy_size p' = toy_size p"
    by (simp add: b p toy_open_def toy_size_def)
qed

lemma encode_image_jpeg:
  assumes "jpeg_library lib size_of open_jpeg" and "encode_image lib img = Inr s"
  shows "\<exists>decoded. open_jpeg (b64decode s) = Some decoded \<and> size_of decoded = (384, 384)"
proof -
  from assms(2) obtain p where
    p: "(case img of Tensor t \<Rightarrow> tensor_to_pil lib t | Pil q \<Rightarrow> Inr q) = Inr p"
    by (auto simp: encode_image_def split: sum.splits)
  with assms(2) obtain p' where p': "resize_lanczos lib p (384, 384) = Inr p'"
    by (auto simp: encode_image_def split: sum.splits)
  with assms(2) p obtain bytes where b: "save_jpeg lib p' 30 = Inr bytes"
    by (auto simp: encode_image_def split: sum.splits)
  with assms(2) p p' have s: "s = b64encode bytes"
    by (simp add: encode_image_def)
  from assms(1) p' have sz: "size_of p' = (384, 384)"
    unfolding jpeg_library_def by blast
  from assms(1) b have bytes: "\<forall>b\<in>set bytes. b < 256"
    and "\<exists>d. open_jpeg bytes = Some d \<and> size_of d = size_of p'"
    unfolding jpeg_library_def by blast+
  then obtain d where d: "open_jpeg bytes = Some d" "size_of d = size_of p'" by blast
  from bytes have "b64decode s = bytes" unfolding s by (rule b64decode_b64encode)
  with d sz show ?thesis by simp
qed

lemma encode_image_bare:
  assumes "encode_image lib img = Inr s"
  shows "\<not> prefix ''data:image/jpeg;base64,'' s"
proof -
  from assms obtain bytes where "s = b64encode bytes"
    by (auto simp: encode_image_def split: sum.splits)
  then show ?thesis by (simp only: b64encode_not_data_uri not_False_eq_True)
qed

text \<open>
  Claim C7. As stated the claim is false of \<open>encode_image\<close>: line 46 returns the base64
  text alone, which never starts with \<^verbatim>\<open>data:image/jpeg;base64,\<close> (the alphabet has no
  colon), and not every input encodes: on a batch of two frames the conversion of line 39
  raises.
\<close>

theorem encode_image_bare_payload:
  "encode_image toy_pil frame = Inr ''/9gBgAGA/9k='' \<and>
   \<not> prefix ''data:image/jpeg;base64,'' ''/9gBgAGA/9k='' \<and>
   encode_image toy_pil two_frames = Inl TypeError"
  by (simp add: encode_image_def toy_pil_def frame_def two_frames_def b64_char_def
        b64_alphabet_def)

text \<open>
  Claim C7, as amended. Take a library whose \<^verbatim>\<open>resize\<close> returns the size asked for and
  whose JPEG writer emits bytes that decode to an image of the size saved. Whenever
  \<open>encode_image\<close> returns on the two frames, each result is bare base64 text (no
  \<^verbatim>\<open>data:\<close> prefix) that decodes to a JPEG image of resolution exactly 384 by 384, and the
  request \<open>generate_video\<close> sends next carries each of them behind
  \<^verbatim>\<open>data:image/jpeg;base64,\<close> as the \<open>uri\<close> of its \<open>promptImage\<close> entry.
\<close>

theorem encode_image_payload:
  assumes lib: "jpeg_library lib size_of open_jpeg"
    and first: "encode_image lib first_frame = Inr first_b64"
    and last: "encode_image lib last_frame = Inr last_b64"
  shows "\<not> prefix ''data:image/jpeg;base64,'' first_b64 \<and>
         \<not> prefix ''data:image/jpeg;base64,'' last_b64 \<and>
         (\<exists>decoded. open_jpeg (b64decode first_b64) = Some decoded \<and>
                    size_of decoded = (384, 384)) \<and>
         (\<exists>decoded. open_jpeg (b64decode last_b64) = Some decoded \<and>
                    size_of decoded = (384, 384)) \<and>
         prefix
           (sent w @
            [Post Image_to_video (post_headers api_key)
               (JObj [(''promptImage'',
                       JArr [JObj [(''uri'', JStr (''data:image/jpeg;base64,'' @ first_b64)),
                                   (''position'', JStr ''first'')],
                             JObj [(''uri'', JStr (''data:image/jpeg;base64,'' @ last_b64)),
                                   (''position'', JStr ''last'')]]),
                      (''promptText'', JStr promptText),
                      (''model'', JStr model),
                      (''duration'', JNum duration),
                      (''ratio'', JStr ratio),
                      (''seed'', JNum seed),
                      (''watermark'', JBool watermark)])])
           (sent (snd (generate_video lib net first_frame last_frame promptText model duration
                         ratio seed watermark api_key True max_wait w)))"
proof -
  have "prefix (sent w @ [submit_request (build_payload first_b64 last_b64 promptText model
                             duration ratio seed watermark) api_key])
           (sent (snd (generate_video lib net first_frame last_frame promptText model duration
                         ratio seed watermark api_key True max_wait w)))"
    using first last by (rule generate_video_sent)
  then have sent: "prefix
           (sent w @
            [Post Image_to_video (post_headers api_key)
               (JObj [(''promptImage'',
                       JArr [JObj [(''uri'', JStr (''data:image/jpeg;base64,'' @ first_b64)),
                                   (''position'', JStr ''first'')],
                             JObj [(''uri'', JStr (''data:image/jpeg;base64,'' @ last_b64)),
                                   (''position'', JStr ''last'')]]),
                      (''promptText'', JStr promptText),
                      (''model'', JStr model),
                      (''duration'', JNum duration),
                      (''ratio'', JStr ratio),
                      (''seed'', JNum seed),
                      (''watermark'', JBool watermark)])])
           (sent (snd (generate_video lib net first_frame last_frame promptText model duration
                         ratio seed watermark api_key True max_wait w)))"
    by (simp only: submit_request_def build_payload_def prompt_image_def Let_def)
  from encode_image_bare [OF first] encode_image_bare [OF last]
    encode_image_jpeg [OF lib first] encode_image_jpeg [OF lib last] sent
  show ?thesis by (intro conjI)
qed

theorem encode_image_payload_witness:
  "jpeg_library toy_pil toy_size toy_open \<and>
   encode_image toy_pil frame = Inr ''/9gBgAGA/9k='' \<and>
   \<not> prefix ''data:image/jpeg;base64,'' ''/9gBgAGA/9k='' \<and>
   toy_open (b64decode ''/9gBgAGA/9k='') = Some (3, 384, 384) \<and>
   toy_size (3, 384, 384) = (384, 384) \<and>
   prefix
     (sent w0 @
      [Post Image_to_video (post_headers ''key'')
         (JObj [(''promptImage'',
                 JArr [JObj [(''uri'', JStr ''data:image/jpeg;base64,/9gBgAGA/9k=''),
                             (''position'', JStr ''first'')],
                       JObj [(''uri'', JStr ''data:image/jpeg;base64,/9gBgAGA/9k=''),
                             (''position'', JStr ''last'')]]),
                (''promptText'', JStr ''A cinematic scene''),
                (''model'', JStr ''gen3a_turbo''),
                (''duration'', JNum 5),
                (''ratio'', JStr ''1280:768''),
                (''seed'', JNum 0),
                (''watermark'', JBool False)])])
     (sent (snd (generate_video toy_pil no_id frame frame ''A cinematic scene''
                   ''gen3a_turbo'' 5 ''1280:768'' 0 False ''key'' True 60 w0)))"
proof -
  note T = encode_image_payload [OF jpeg_library_toy encode_frame encode_frame,
             of w0 "''key''" "''A cinematic scene''" "''gen3a_turbo''" 5 "''1280:768''" 0 False
                no_id 60]
  have dec: "toy_open (b64decode ''/9gBgAGA/9k='') = Some (3, 384, 384)"
    by (simp add: toy_open_def b64_index_def b64_alphabet_def)
  have sz: "toy_size (3, 384, 384) = (384, 384)" by (simp add: toy_size_def)
  from T jpeg_library_toy encode_frame dec sz show ?thesis by simp
qed

end
